theory Spec2Isabelle
  imports Main
begin

section \<open>JavaScript values\<close>

text \<open>
  \<^verbatim>\<open>src/dynamodbHelper.js\<close> holds two revisions of the wrapper, one after the other;
  the model follows the later one, lines 239 to 584, which has all seven exported
  functions.

  The wrapper is dynamically typed: every argument of every exported function is an
  arbitrary JavaScript value, and the validation code tells values apart only through
  their \<^verbatim>\<open>length\<close> property and their truthiness. The values are modelled by a
  datatype of JSON-like values.

  Conventions of the representation:
  \<^item> numbers are integers (lengths, counters and the integer attribute values of the
    examples), in the range JavaScript prints in plain decimal notation; fractional
    numbers, infinities and NaN are not values of the model;
  \<^item> a string is the list of its code units, all below 256;
  \<^item> \<open>JObj ps\<close> is a plain object whose own enumerable data properties are the pairs of
    \<open>ps\<close>, with distinct names, listed in enumeration order, none of them named
    \<^verbatim>\<open>toString\<close> or \<^verbatim>\<open>valueOf\<close>;
  \<^item> \<open>JArr xs\<close> is an array without holes.
\<close>

datatype jsval =
    JUndefined
  | JNull
  | JBool bool
  | JNum int
  | JStr string
  | JArr "jsval list"
  | JObj "(string \<times> jsval) list"

text \<open>Decimal rendering of array indices and of integer numbers.\<close>

definition digitChar :: "nat \<Rightarrow> char" where
  "digitChar d = ''0123456789'' ! d"

fun showNat :: "nat \<Rightarrow> string" where
  "showNat n = (if n < 10 then [digitChar n] else showNat (n div 10) @ [digitChar (n mod 10)])"

declare showNat.simps [simp del]

definition showInt :: "int \<Rightarrow> string" where
  "showInt i = (if i < 0 then CHR ''-'' # showNat (nat (- i)) else showNat (nat i))"

fun joinWith :: "string \<Rightarrow> string list \<Rightarrow> string" where
  "joinWith sep [] = []"
| "joinWith sep [s] = s"
| "joinWith sep (s # t # ss) = s @ sep @ joinWith sep (t # ss)"

text \<open>
  \<open>toStr\<close> is the conversion a template literal \<^verbatim>\<open>`${v}`\<close> and the operator
  \<^verbatim>\<open>+\<close> on a string apply to a value (ToString): an array is its elements joined by
  commas, with \<^verbatim>\<open>null\<close> and \<^verbatim>\<open>undefined\<close> elements rendered empty, and a
  plain object is \<^verbatim>\<open>[object Object]\<close>.
\<close>

fun toStr :: "jsval \<Rightarrow> string" where
  "toStr JUndefined = ''undefined''"
| "toStr JNull = ''null''"
| "toStr (JBool b) = (if b then ''true'' else ''false'')"
| "toStr (JNum n) = showInt n"
| "toStr (JStr s) = s"
| "toStr (JArr xs) =
     joinWith '','' (map (\<lambda>x. if x = JUndefined \<or> x = JNull then [] else toStr x) xs)"
| "toStr (JObj ps) = ''[object Object]''"

text \<open>
  The relational operators convert their operands to numbers (ToNumber) and the wrapper
  only ever compares with 0, so of the number a value converts to the model keeps what
  such a comparison sees: whether it is NaN, below zero, zero or above zero.
\<close>

datatype numsign = NaN | Negative | Zero | Positive

text \<open>
  The conversion of a string, by the grammar of string numeric literals. White space at
  both ends is dropped (among the code units below 256: tab, line feed, vertical tab,
  form feed, carriage return, space and no-break space) and the empty string is 0. What
  is left is a hexadecimal, binary or octal integer literal (\<^verbatim>\<open>0x\<close>, \<^verbatim>\<open>0b\<close>,
  \<^verbatim>\<open>0o\<close>, either case, unsigned), or an optionally signed decimal literal:
  \<^verbatim>\<open>Infinity\<close>, or digits with an optional fraction and an optional exponent, a
  digit on at least one side of the point. Anything else is NaN.
\<close>

definition isBlank :: "char \<Rightarrow> bool" where
  "isBlank c = (c = CHR 0x09 \<or> c = CHR 0x0A \<or> c = CHR 0x0B \<or> c = CHR 0x0C \<or> c = CHR 0x0D
                 \<or> c = CHR 0x20 \<or> c = CHR 0xA0)"

definition trim :: "string \<Rightarrow> string" where
  "trim s = rev (dropWhile isBlank (rev (dropWhile isBlank s)))"

definition isDigit :: "char \<Rightarrow> bool" where
  "isDigit c = (let k = of_char c :: nat in 48 \<le> k \<and> k \<le> 57)"

definition isHexDigit :: "char \<Rightarrow> bool" where
  "isHexDigit c =
     (let k = of_char c :: nat
      in (48 \<le> k \<and> k \<le> 57) \<or> (65 \<le> k \<and> k \<le> 70) \<or> (97 \<le> k \<and> k \<le> 102))"

definition isOctalDigit :: "char \<Rightarrow> bool" where
  "isOctalDigit c = (let k = of_char c :: nat in 48 \<le> k \<and> k \<le> 55)"

definition isBinaryDigit :: "char \<Rightarrow> bool" where
  "isBinaryDigit c = (c = CHR ''0'' \<or> c = CHR ''1'')"

definition allZero :: "string \<Rightarrow> bool" where
  "allZero ds = list_all (\<lambda>c. c = CHR ''0'') ds"

definition intOfDigits :: "string \<Rightarrow> int" where
  "intOfDigits ds = foldl (\<lambda>acc c. 10 * acc + (of_char c - 48)) 0 ds"

text \<open>The digits after a radix prefix: none, or a digit of another radix, is NaN.\<close>

definition radixSign :: "(char \<Rightarrow> bool) \<Rightarrow> string \<Rightarrow> numsign" where
  "radixSign digit ds =
     (if ds \<noteq> [] \<and> list_all digit ds then (if allZero ds then Zero else Positive) else NaN)"

definition nonDecimalSign :: "string \<Rightarrow> numsign option" where
  "nonDecimalSign t =
     (case t of
        c0 # c1 # ds \<Rightarrow>
          if c0 = CHR ''0'' \<and> (c1 = CHR ''x'' \<or> c1 = CHR ''X'') then Some (radixSign isHexDigit ds)
          else if c0 = CHR ''0'' \<and> (c1 = CHR ''b'' \<or> c1 = CHR ''B'') then Some (radixSign isBinaryDigit ds)
          else if c0 = CHR ''0'' \<and> (c1 = CHR ''o'' \<or> c1 = CHR ''O'') then Some (radixSign isOctalDigit ds)
          else None
      | _ \<Rightarrow> None)"

text \<open>
  What follows the mantissa of a decimal literal: nothing, or \<^verbatim>\<open>e\<close> or \<^verbatim>\<open>E\<close>,
  an optional sign and at least one digit. \<open>None\<close> when it is something else.
\<close>

definition unsignedDigits :: "string \<Rightarrow> int option" where
  "unsignedDigits ds = (if ds \<noteq> [] \<and> list_all isDigit ds then Some (intOfDigits ds) else None)"

definition exponentPart :: "string \<Rightarrow> int option" where
  "exponentPart r =
     (case r of
        [] \<Rightarrow> Some 0
      | c # ds \<Rightarrow>
          if c = CHR ''e'' \<or> c = CHR ''E'' then
            (case ds of
               [] \<Rightarrow> None
             | d # ds' \<Rightarrow>
                 if d = CHR ''-'' then map_option uminus (unsignedDigits ds')
                 else if d = CHR ''+'' then unsignedDigits ds'
                 else unsignedDigits ds)
          else None)"

text \<open>
  A mantissa with digits \<open>ds\<close> (the point dropped) and a decimal exponent \<open>k\<close>
  stands for \<open>ds \<times> 10\<^sup>k\<close>. The number it rounds to is zero when every digit is zero, and
  when the value is at most \<open>2\<^sup>-\<^sup>1\<^sup>0\<^sup>7\<^sup>5\<close>, half of the least positive number; one too large
  to represent rounds to infinity, which is above zero.
\<close>

definition magnitudeSign :: "string \<Rightarrow> int \<Rightarrow> numsign" where
  "magnitudeSign ds k =
     (if allZero ds then Zero
      else if 0 \<le> k then Positive
      else if intOfDigits ds * 2 ^ 1075 \<le> 10 ^ nat (- k) then Zero
      else Positive)"

definition unsignedDecimalSign :: "string \<Rightarrow> numsign" where
  "unsignedDecimalSign u =
     (if u = ''Infinity'' then Positive
      else
        let ip = takeWhile isDigit u;
            r1 = dropWhile isDigit u;
            fp = (case r1 of [] \<Rightarrow> [] | c # r \<Rightarrow> if c = CHR ''.'' then takeWhile isDigit r else []);
            r2 = (case r1 of [] \<Rightarrow> [] | c # r \<Rightarrow> if c = CHR ''.'' then dropWhile isDigit r else r1)
        in if ip = [] \<and> fp = [] then NaN
           else (case exponentPart r2 of
                   None \<Rightarrow> NaN
                 | Some e \<Rightarrow> magnitudeSign (ip @ fp) (e - int (length fp))))"

definition negated :: "numsign \<Rightarrow> numsign" where
  "negated x = (case x of Positive \<Rightarrow> Negative | Negative \<Rightarrow> Positive | _ \<Rightarrow> x)"

definition decimalSign :: "string \<Rightarrow> numsign" where
  "decimalSign t =
     (case t of
        [] \<Rightarrow> Zero
      | c # u \<Rightarrow>
          if c = CHR ''-'' then negated (unsignedDecimalSign u)
          else if c = CHR ''+'' then unsignedDecimalSign u
          else unsignedDecimalSign t)"

definition strNumberSign :: "string \<Rightarrow> numsign" where
  "strNumberSign s =
     (let t = trim s
      in if t = [] then Zero
         else (case nonDecimalSign t of Some x \<Rightarrow> x | None \<Rightarrow> decimalSign t))"

text \<open>
  The conversion of a value: \<^verbatim>\<open>undefined\<close> is NaN, \<^verbatim>\<open>null\<close> and
  \<^verbatim>\<open>false\<close> are 0, \<^verbatim>\<open>true\<close> is 1, an array converts as the string it prints
  as, a plain object is NaN.
\<close>

fun numberSign :: "jsval \<Rightarrow> numsign" where
  "numberSign JUndefined = NaN"
| "numberSign JNull = Zero"
| "numberSign (JBool b) = (if b then Positive else Zero)"
| "numberSign (JNum n) = (if n < 0 then Negative else if n = 0 then Zero else Positive)"
| "numberSign (JStr s) = strNumberSign s"
| "numberSign (JArr xs) = strNumberSign (toStr (JArr xs))"
| "numberSign (JObj ps) = NaN"

text \<open>The comparisons \<^verbatim>\<open>v <= 0\<close>, \<^verbatim>\<open>v > 0\<close> and \<^verbatim>\<open>v >= 0\<close>: false on NaN.\<close>

definition leZero :: "jsval \<Rightarrow> bool" where
  "leZero v = (numberSign v = Negative \<or> numberSign v = Zero)"

definition gtZero :: "jsval \<Rightarrow> bool" where
  "gtZero v = (numberSign v = Positive)"

definition geZero :: "jsval \<Rightarrow> bool" where
  "geZero v = (numberSign v = Zero \<or> numberSign v = Positive)"

text \<open>Truthiness, as tested by \<^verbatim>\<open>if (v)\<close> and \<^verbatim>\<open>!v\<close>.\<close>

fun truthy :: "jsval \<Rightarrow> bool" where
  "truthy JUndefined = False"
| "truthy JNull = False"
| "truthy (JBool b) = b"
| "truthy (JNum n) = (n \<noteq> 0)"
| "truthy (JStr s) = (s \<noteq> [])"
| "truthy (JArr xs) = True"
| "truthy (JObj ps) = True"

text \<open>
  Reading a property \<^verbatim>\<open>v.k\<close>. On \<^verbatim>\<open>undefined\<close> and \<^verbatim>\<open>null\<close> the read
  throws a TypeError (\<open>None\<close>); a missing property reads as \<^verbatim>\<open>undefined\<close>.
  Strings and arrays have a \<^verbatim>\<open>length\<close> and their index properties. The wrapper
  reads \<^verbatim>\<open>length\<close>, \<^verbatim>\<open>fieldName\<close>, \<^verbatim>\<open>fieldValue\<close>, \<^verbatim>\<open>code\<close> and
  the keys of a \<^verbatim>\<open>for in\<close> loop, none of which names a member inherited from a
  prototype.
\<close>

definition indexOfKey :: "string \<Rightarrow> nat \<Rightarrow> nat option" where
  "indexOfKey k n = find (\<lambda>i. showNat i = k) [0..<n]"

fun getProp :: "jsval \<Rightarrow> string \<Rightarrow> jsval option" where
  "getProp JUndefined k = None"
| "getProp JNull k = None"
| "getProp (JBool b) k = Some JUndefined"
| "getProp (JNum n) k = Some JUndefined"
| "getProp (JStr s) k =
     Some (if k = ''length'' then JNum (int (length s))
           else case indexOfKey k (length s) of None \<Rightarrow> JUndefined | Some i \<Rightarrow> JStr [s ! i])"
| "getProp (JArr xs) k =
     Some (if k = ''length'' then JNum (int (length xs))
           else case indexOfKey k (length xs) of None \<Rightarrow> JUndefined | Some i \<Rightarrow> xs ! i)"
| "getProp (JObj ps) k = Some (case map_of ps k of None \<Rightarrow> JUndefined | Some x \<Rightarrow> x)"

text \<open>
  The keys a \<^verbatim>\<open>for (let k in v)\<close> loop visits, in order: the indices of an array or
  string as decimal strings, the property names of a plain object, nothing for the other
  values.
\<close>

fun forInKeys :: "jsval \<Rightarrow> string list" where
  "forInKeys (JArr xs) = map showNat [0..<length xs]"
| "forInKeys (JStr s) = map showNat [0..<length s]"
| "forInKeys (JObj ps) = map fst ps"
| "forInKeys v = []"

text \<open>
  Assignment \<^verbatim>\<open>o[k] = v\<close> to a plain object: an existing property keeps its place
  and takes the new value, a new property is added at the end.
\<close>

fun setProp :: "string \<Rightarrow> jsval \<Rightarrow> (string \<times> jsval) list \<Rightarrow> (string \<times> jsval) list" where
  "setProp k v [] = [(k, v)]"
| "setProp k v (p # ps) = (if fst p = k then (k, v) # ps else p # setProp k v ps)"


section \<open>Promises, error objects and the store client\<close>

text \<open>
  Every rejection built by the wrapper is an object literal with a \<^verbatim>\<open>msg\<close>, and
  optionally a \<^verbatim>\<open>code\<close>, a \<^verbatim>\<open>DBError\<close> and, spread from
  \<^verbatim>\<open>errorObj\<close>, the \<^verbatim>\<open>calledWith\<close> record of the call's arguments. An
  absent property is \<open>None\<close>.
\<close>

record errobj =
  msg :: string
  code :: "string option"
  DBError :: "jsval option"
  calledWith :: "(string \<times> jsval) list option"

text \<open>
  A promise is rejected either with such an object or, when the executor throws, with the
  TypeError the runtime raised on reading a property of \<^verbatim>\<open>undefined\<close> or
  \<^verbatim>\<open>null\<close>.
\<close>

datatype rejection = OperationError errobj | TypeError

datatype promise = Pending | Resolved jsval | Rejected rejection

text \<open>Only the first call of \<^verbatim>\<open>resolve\<close> or \<^verbatim>\<open>reject\<close> settles a promise.\<close>

fun resolve :: "jsval \<Rightarrow> promise \<Rightarrow> promise" where
  "resolve v Pending = Resolved v"
| "resolve v p = p"

fun reject :: "rejection \<Rightarrow> promise \<Rightarrow> promise" where
  "reject e Pending = Rejected e"
| "reject e p = p"

text \<open>
  The request document \<^verbatim>\<open>requestParams\<close>: it starts as \<^verbatim>\<open>{}\<close> and the
  operations assign the properties below.
\<close>

record request =
  TableName :: "jsval option"
  Item :: "jsval option"
  Key :: "jsval option"
  ConditionExpression :: "jsval option"
  ExpressionAttributeValues :: "jsval option"
  UpdateExpression :: "jsval option"
  KeyConditionExpression :: "jsval option"
  ExpressionAttributeNames :: "jsval option"
  IndexName :: "jsval option"

definition emptyRequest :: request where
  "emptyRequest =
     \<lparr>TableName = None, Item = None, Key = None, ConditionExpression = None,
      ExpressionAttributeValues = None, UpdateExpression = None,
      KeyConditionExpression = None, ExpressionAttributeNames = None, IndexName = None\<rparr>"

text \<open>
  The document client of the AWS SDK is not part of the repository. It is a parameter of
  the model: for each of its five methods, a function from the request document to the
  pair \<open>(err, data)\<close> it hands to the callback, which it calls once.
\<close>

datatype clientOp = ClientPut | ClientUpdate | ClientDelete | ClientGet | ClientQuery

type_synonym client = "clientOp \<Rightarrow> request \<Rightarrow> jsval \<times> jsval"

text \<open>
  What a call of an operation amounts to: the final state of the promise it returned and
  the invocations of the store client it made.
\<close>

record opResult =
  outcome :: promise
  calls :: "(clientOp \<times> request) list"

definition thrown :: opResult where
  "thrown = \<lparr>outcome = reject TypeError Pending, calls = []\<rparr>"

definition rejected :: "errobj \<Rightarrow> opResult" where
  "rejected e = \<lparr>outcome = reject (OperationError e) Pending, calls = []\<rparr>"

text \<open>
  The test \<^verbatim>\<open>v.length <= 0\<close> (\<open>None\<close> when reading the property throws) and the
  guarded form \<^verbatim>\<open>!v || v.length <= 0\<close> of \<^verbatim>\<open>updateItem\<close>.
\<close>

definition lengthLE0 :: "jsval \<Rightarrow> bool option" where
  "lengthLE0 v = map_option leZero (getProp v ''length'')"

definition lengthGT0 :: "jsval \<Rightarrow> bool option" where
  "lengthGT0 v = map_option gtZero (getProp v ''length'')"

definition lengthGE0 :: "jsval \<Rightarrow> bool option" where
  "lengthGE0 v = map_option geZero (getProp v ''length'')"

definition missingOrLengthLE0 :: "jsval \<Rightarrow> bool option" where
  "missingOrLengthLE0 v = (if \<not> truthy v then Some True else lengthLE0 v)"

text \<open>
  A validation line \<^verbatim>\<open>if (test) return reject({msg: m, ...errorObj});\<close> followed by
  the rest of the executor.
\<close>

definition validate ::
  "bool option \<Rightarrow> string \<Rightarrow> (string \<times> jsval) list \<Rightarrow> opResult \<Rightarrow> opResult" where
  "validate test m errorObj rest =
     (case test of
        None \<Rightarrow> thrown
      | Some b \<Rightarrow>
          if b then rejected \<lparr>msg = m, code = None, DBError = None, calledWith = Some errorObj\<rparr>
          else rest)"

text \<open>A parameter with a default value takes it when the argument is \<^verbatim>\<open>undefined\<close>.\<close>

definition withDefault :: "jsval \<Rightarrow> jsval \<Rightarrow> jsval" where
  "withDefault d v = (if v = JUndefined then d else v)"

text \<open>The test \<^verbatim>\<open>err.code === 'ConditionalCheckFailedException'\<close> on a truthy \<open>err\<close>.\<close>

definition isConditionalCheckFailed :: "jsval \<Rightarrow> bool" where
  "isConditionalCheckFailed err = (getProp err ''code'' = Some (JStr ''ConditionalCheckFailedException''))"

text \<open>
  The callback of \<^verbatim>\<open>deleteItem\<close>, \<^verbatim>\<open>getItem\<close> and \<^verbatim>\<open>query\<close>, which differ
  in the message only.
\<close>

definition plainCallback :: "string \<Rightarrow> (string \<times> jsval) list \<Rightarrow> jsval \<times> jsval \<Rightarrow> promise \<Rightarrow> promise" where
  "plainCallback m errorObj r p =
     (case r of (err, data) \<Rightarrow>
        if truthy err
        then reject (OperationError
               \<lparr>msg = m, code = Some ''DBError'', DBError = Some err, calledWith = Some errorObj\<rparr>) p
        else resolve data p)"

section \<open>putItem\<close>

text \<open>
  \<^verbatim>\<open>exports.putItem\<close>, lines 268 to 307. The literal assigned to
  \<^verbatim>\<open>ConditionExpression\<close> on line 284 is not a well-formed expression as the file
  has it; the two earlier revisions of the function (lines 30 to 69 of the same file and of
  \<^verbatim>\<open>src/unnamed/part_000\<close>), which differ from this one in spelling only, have \<^verbatim>\<open>"attribute_not_exists(MachineID)"\<close> on their line 46,
  and the model takes the literal from there.

  In the callback, the rejection for a failed condition is not followed by a
  \<^verbatim>\<open>return\<close>: control goes on to the second \<^verbatim>\<open>reject\<close> and to
  \<^verbatim>\<open>resolve\<close>, which find the promise settled.
\<close>

definition putCallback :: "(string \<times> jsval) list \<Rightarrow> jsval \<times> jsval \<Rightarrow> promise \<Rightarrow> promise" where
  "putCallback errorObj r p =
     (case r of (err, res) \<Rightarrow>
        let p1 =
          (if truthy err then
             let p0 =
               (if isConditionalCheckFailed err
                then reject (OperationError
                       \<lparr>msg = ''Item with that key already exists'', code = Some ''ItemExists'',
                        DBError = None, calledWith = Some errorObj\<rparr>) p
                else p)
             in reject (OperationError
                  \<lparr>msg = ''Put failed on dynamoDB'', code = Some ''DBError'',
                   DBError = Some err, calledWith = Some errorObj\<rparr>) p0
           else p)
        in resolve res p1)"

definition putItem :: "client \<Rightarrow> jsval \<Rightarrow> jsval \<Rightarrow> jsval \<Rightarrow> opResult" where
  "putItem docClient item tableName overwriteArg =
     (let overwrite = withDefault (JBool False) overwriteArg;
          errorObj = [(''item'', item), (''TableName'', tableName), (''overwrite'', overwrite)]
      in validate (lengthLE0 item) ''No item supplied'' errorObj
        (validate (lengthLE0 tableName) ''No tableName supplied'' errorObj
          (let requestParams = emptyRequest\<lparr>TableName := Some tableName, Item := Some item\<rparr>;
               requestParams =
                 (if \<not> truthy overwrite
                  then requestParams\<lparr>ConditionExpression := Some (JStr ''attribute_not_exists(MachineID)'')\<rparr>
                  else requestParams)
           in \<lparr>outcome = putCallback errorObj (docClient ClientPut requestParams) Pending,
               calls = [(ClientPut, requestParams)]\<rparr>)))"

section \<open>updateItem\<close>

text \<open>
  \<^verbatim>\<open>exports.updateItem\<close>, lines 322 to 410. The loop over \<^verbatim>\<open>updateParams\<close>
  appends the comma before it checks the field name, and leaves the executor through
  \<^verbatim>\<open>return reject\<close> on a field name that is \<^verbatim>\<open>undefined\<close> or
  \<^verbatim>\<open>null\<close>; reading a property of an element that is itself \<^verbatim>\<open>undefined\<close> or
  \<^verbatim>\<open>null\<close> throws. The line the loop writes to the console on that exit does not
  bear on the promise and is left out.
\<close>

datatype loopExit = InvalidField | Threw

fun buildUpdate ::
  "jsval \<Rightarrow> string list \<Rightarrow> string \<Rightarrow> (string \<times> jsval) list
     \<Rightarrow> loopExit + string \<times> (string \<times> jsval) list" where
  "buildUpdate updateParams [] updateExpression expressionAttributeValues =
     Inr (updateExpression, expressionAttributeValues)"
| "buildUpdate updateParams (paramIndex # keys) updateExpression expressionAttributeValues =
     (let updateExpression =
            (if paramIndex \<noteq> ''0'' then updateExpression @ '','' else updateExpression)
      in case getProp updateParams paramIndex of
           None \<Rightarrow> Inl Threw
         | Some param \<Rightarrow>
             (case getProp param ''fieldName'' of
                None \<Rightarrow> Inl Threw
              | Some fieldName \<Rightarrow>
                  if fieldName = JUndefined \<or> fieldName = JNull then Inl InvalidField
                  else
                    (case getProp param ''fieldValue'' of
                       None \<Rightarrow> Inl Threw
                     | Some fieldValue \<Rightarrow>
                         buildUpdate updateParams keys
                           (updateExpression @ '' '' @ toStr fieldName @ '' = :'' @ toStr fieldName)
                           (setProp ('':'' @ toStr fieldName) fieldValue expressionAttributeValues))))"

text \<open>The loop as \<^verbatim>\<open>updateItem\<close> runs it, from \<^verbatim>\<open>'set'\<close> and \<^verbatim>\<open>{}\<close>.\<close>

definition buildUpdateExpression :: "jsval \<Rightarrow> loopExit + string \<times> (string \<times> jsval) list" where
  "buildUpdateExpression updateParams =
     buildUpdate updateParams (forInKeys updateParams) ''set'' []"

definition requireItemExistsExpression :: string where
  "requireItemExistsExpression = ''attribute_exists(MachineID)''"

definition updateCallback ::
  "request \<Rightarrow> (string \<times> jsval) list \<Rightarrow> jsval \<times> jsval \<Rightarrow> promise \<Rightarrow> promise" where
  "updateCallback requestParams errorObj r p =
     (case r of (err, data) \<Rightarrow>
        if truthy err then
          if isConditionalCheckFailed err then
            (let errorText =
               ''Conditional Check Failed, Item possibly does not exist? Failed Condition Expression: ''
                 @ (case ConditionExpression requestParams of None \<Rightarrow> toStr JUndefined | Some c \<Rightarrow> toStr c)
             in reject (OperationError
                  \<lparr>msg = errorText, code = Some ''DBError.ConditionalCheckFailedException'',
                   DBError = Some err, calledWith = Some errorObj\<rparr>) p)
          else reject (OperationError
                 \<lparr>msg = ''Update failed on dynamoDB'', code = Some ''DBError'',
                  DBError = Some err, calledWith = Some errorObj\<rparr>) p
        else resolve data p)"

definition updateItem :: "client \<Rightarrow> jsval \<Rightarrow> jsval \<Rightarrow> jsval \<Rightarrow> jsval \<Rightarrow> opResult" where
  "updateItem docClient itemKey tableName updateParams conditionExpressionArg =
     (let conditionExpression = withDefault (JStr []) conditionExpressionArg;
          errorObj = [(''updateParams'', updateParams), (''tableName'', tableName),
                      (''itemKey'', itemKey), (''conditionExpression'', conditionExpression)]
      in validate (missingOrLengthLE0 itemKey) ''no Item Key supplied'' errorObj
        (validate (missingOrLengthLE0 updateParams) ''No updateParams supplied'' errorObj
          (validate (missingOrLengthLE0 tableName) ''No tableName supplied'' errorObj
            (case buildUpdateExpression updateParams of
               Inl Threw \<Rightarrow> thrown
             | Inl InvalidField \<Rightarrow>
                 rejected \<lparr>msg = ''Update failed on dynamoDB'', code = Some ''InvalidData'',
                           DBError = Some (JStr ''Passed parameters where undefined''),
                           calledWith = Some errorObj\<rparr>
             | Inr (updateExpression, expressionAttributeValues) \<Rightarrow>
                 (case lengthGT0 conditionExpression of
                    None \<Rightarrow> thrown
                  | Some extra \<Rightarrow>
                      let conditionExpressionBuilder =
                            (if extra
                             then requireItemExistsExpression @ '', '' @ toStr conditionExpression
                             else requireItemExistsExpression);
                          requestParams = emptyRequest
                            \<lparr>Key := Some itemKey, TableName := Some tableName,
                             ExpressionAttributeValues := Some (JObj expressionAttributeValues),
                             UpdateExpression := Some (JStr updateExpression),
                             ConditionExpression := Some (JStr conditionExpressionBuilder)\<rparr>
                      in \<lparr>outcome = updateCallback requestParams errorObj
                                       (docClient ClientUpdate requestParams) Pending,
                          calls = [(ClientUpdate, requestParams)]\<rparr>)))))"

section \<open>deleteItem, getItem, query and scan\<close>

text \<open>Lines 423 to 457, 467 to 496, 519 to 553 and 560 to 567.\<close>

definition deleteItem :: "client \<Rightarrow> jsval \<Rightarrow> jsval \<Rightarrow> jsval \<Rightarrow> jsval \<Rightarrow> opResult" where
  "deleteItem docClient itemKey tableName deleteCondition deleteParameters =
     (let errorObj = [(''itemKey'', itemKey), (''tableName'', tableName),
                      (''deleteCondition'', deleteCondition), (''deleteParameters'', deleteParameters)]
      in validate (lengthLE0 itemKey) ''no Item Key supplied'' errorObj
        (validate (lengthLE0 tableName) ''No tableName supplied'' errorObj
          (validate (lengthLE0 deleteCondition) ''No delete condition supplied'' errorObj
            (validate (lengthLE0 deleteParameters) ''No delete condition supplied'' errorObj
              (let requestParams = emptyRequest
                     \<lparr>Key := Some itemKey, TableName := Some tableName,
                      ConditionExpression := Some deleteCondition,
                      ExpressionAttributeValues := Some deleteParameters\<rparr>
               in \<lparr>outcome = plainCallback ''Delete failed on dynamoDB'' errorObj
                                (docClient ClientDelete requestParams) Pending,
                   calls = [(ClientDelete, requestParams)]\<rparr>)))))"

definition getItem :: "client \<Rightarrow> jsval \<Rightarrow> jsval \<Rightarrow> opResult" where
  "getItem docClient itemKey tableName =
     (let errorObj = [(''itemKey'', itemKey), (''tableName'', tableName)]
      in validate (lengthLE0 itemKey) ''no Item Key supplied'' errorObj
        (validate (lengthLE0 tableName) ''No tableName supplied'' errorObj
          (let requestParams = emptyRequest\<lparr>Key := Some itemKey, TableName := Some tableName\<rparr>
           in \<lparr>outcome = plainCallback ''Get failed on dynamoDB'' errorObj
                            (docClient ClientGet requestParams) Pending,
               calls = [(ClientGet, requestParams)]\<rparr>)))"

definition query :: "client \<Rightarrow> jsval \<Rightarrow> jsval \<Rightarrow> jsval \<Rightarrow> jsval \<Rightarrow> jsval \<Rightarrow> opResult" where
  "query docClient conditionExpression expressionAttributeNames expressionAttributeValues
         tableName indexNameArg =
     (let indexName = withDefault (JStr []) indexNameArg;
          errorObj = [(''conditionExpression'', conditionExpression), (''tableName'', tableName),
                      (''expressionAttributeNames'', expressionAttributeNames),
                      (''expressionAttributeValues'', expressionAttributeValues)]
      in validate (lengthLE0 conditionExpression) ''No conditionExpression supplied'' errorObj
        (validate (lengthLE0 tableName) ''No tableName supplied'' errorObj
          (validate (lengthLE0 expressionAttributeNames) ''No expressionAttributeNames supplied'' errorObj
            (validate (lengthLE0 expressionAttributeValues) ''No expressionAttributeValues supplied'' errorObj
              (case lengthGT0 indexName of
                 None \<Rightarrow> thrown
               | Some named \<Rightarrow>
                   let requestParams = emptyRequest
                         \<lparr>TableName := Some tableName,
                          KeyConditionExpression := Some conditionExpression,
                          ExpressionAttributeNames := Some expressionAttributeNames,
                          ExpressionAttributeValues := Some expressionAttributeValues\<rparr>;
                       requestParams =
                         (if named then requestParams\<lparr>IndexName := Some indexName\<rparr>
                          else requestParams)
                   in \<lparr>outcome = plainCallback ''Query failed on dynamoDB'' errorObj
                                    (docClient ClientQuery requestParams) Pending,
                       calls = [(ClientQuery, requestParams)]\<rparr>)))))"

definition scan :: "client \<Rightarrow> opResult" where
  "scan docClient =
     \<lparr>outcome = reject (OperationError
                  \<lparr>msg = ''Not implemented'', code = None, DBError = None, calledWith = None\<rparr>)
                  Pending,
      calls = []\<rparr>"

section \<open>setAWSRegion\<close>

text \<open>
  Lines 573 to 582. The module state is the region held by \<^verbatim>\<open>AWS.config\<close>, set to
  \<^verbatim>\<open>defaultRegion\<close> when the module is loaded, and the lines written to the console.
  The function is synchronous: a TypeError thrown by \<^verbatim>\<open>regionName.length\<close> reaches
  the caller (\<open>None\<close>).
\<close>

record moduleState =
  region :: jsval
  console :: "string list"

definition defaultRegion :: string where
  "defaultRegion = ''eu-west-1''"

definition initialState :: moduleState where
  "initialState = \<lparr>region = JStr defaultRegion, console = []\<rparr>"

definition setAWSRegion :: "jsval \<Rightarrow> moduleState \<Rightarrow> moduleState option" where
  "setAWSRegion regionName st =
     (case lengthGE0 regionName of
        None \<Rightarrow> None
      | Some b \<Rightarrow>
          Some (if b then st\<lparr>region := regionName\<rparr>
                else st\<lparr>console := console st @
                       [''No region passed'',
                        ''AWS region remains at default: '' @ defaultRegion]\<rparr>))"


section \<open>Notions of the specification\<close>

text \<open>
  The specification describes an update field as a pair of a field name and a field
  value, and the update expression as one clause per field. On the elements of
  \<^verbatim>\<open>updateParams\<close> these read as follows: a field has a name when its
  \<^verbatim>\<open>fieldName\<close> property is neither \<^verbatim>\<open>undefined\<close> nor \<^verbatim>\<open>null\<close>;
  its clause is \<^verbatim>\<open><name> = :<name>\<close> and its placeholder \<^verbatim>\<open>:<name>\<close>.
\<close>

definition hasFieldName :: "jsval \<Rightarrow> bool" where
  "hasFieldName param =
     (case getProp param ''fieldName'' of
        None \<Rightarrow> False
      | Some fieldName \<Rightarrow> fieldName \<noteq> JUndefined \<and> fieldName \<noteq> JNull)"

definition fieldNameOf :: "jsval \<Rightarrow> string" where
  "fieldNameOf param =
     (case getProp param ''fieldName'' of None \<Rightarrow> [] | Some fieldName \<Rightarrow> toStr fieldName)"

definition fieldValueOf :: "jsval \<Rightarrow> jsval" where
  "fieldValueOf param =
     (case getProp param ''fieldValue'' of None \<Rightarrow> JUndefined | Some v \<Rightarrow> v)"

definition clause :: "jsval \<Rightarrow> string" where
  "clause param = fieldNameOf param @ '' = :'' @ fieldNameOf param"

definition placeholder :: "jsval \<Rightarrow> string" where
  "placeholder param = '':'' @ fieldNameOf param"

definition specUpdateExpression :: "jsval list \<Rightarrow> string" where
  "specUpdateExpression params = ''set '' @ joinWith '', '' (map clause params)"

text \<open>One round of the loop on the attribute values.\<close>

definition assign :: "(string \<times> jsval) list \<Rightarrow> jsval \<Rightarrow> (string \<times> jsval) list" where
  "assign eav param = setProp (placeholder param) (fieldValueOf param) eav"






text \<open>
  An empty argument is the empty string or the empty array; an argument is present when
  it is neither \<^verbatim>\<open>undefined\<close> nor \<^verbatim>\<open>null\<close>.
\<close>

definition emptyArg :: "jsval \<Rightarrow> bool" where
  "emptyArg v = (v = JStr [] \<or> v = JArr [])"

definition present :: "jsval \<Rightarrow> bool" where
  "present v = (v \<noteq> JUndefined \<and> v \<noteq> JNull)"

text \<open>
  Outcomes the specification speaks of. \<open>failsInvalidData\<close>: no store call, and a
  rejection whose code is \<^verbatim>\<open>InvalidData\<close>. \<open>rejectedUncoded\<close>: no store call, and
  a rejection that has a message and the call's arguments but neither a code nor a cause.
  \<open>classifiedWithContext kind\<close>: a rejection with code \<open>kind\<close> that carries the call's
  arguments. \<open>decidedByStore\<close>: the client was invoked exactly once and the outcome is
  its answer, resolved with its data or rejected with a code other than
  \<^verbatim>\<open>InvalidData\<close>.
\<close>

definition failsInvalidData :: "opResult \<Rightarrow> bool" where
  "failsInvalidData r =
     (calls r = [] \<and>
      (case outcome r of
         Rejected (OperationError e) \<Rightarrow> code e = Some ''InvalidData''
       | _ \<Rightarrow> False))"

definition rejectedUncoded :: "opResult \<Rightarrow> bool" where
  "rejectedUncoded r =
     (calls r = [] \<and>
      (case outcome r of
         Rejected (OperationError e) \<Rightarrow> code e = None \<and> DBError e = None \<and> calledWith e \<noteq> None
       | _ \<Rightarrow> False))"

definition classifiedWithContext :: "string \<Rightarrow> opResult \<Rightarrow> bool" where
  "classifiedWithContext kind r =
     (case outcome r of
        Rejected (OperationError e) \<Rightarrow> code e = Some kind \<and> calledWith e \<noteq> None
      | _ \<Rightarrow> False)"


text \<open>
  Three fake store clients, none of which holds an item: one accepts every request and
  answers with an empty response (the answer of the store to a read of an absent key), one
  fails every request on its condition, one fails every request for want of throughput.
\<close>

definition acceptingStore :: client where
  "acceptingStore op req = (JNull, JObj [])"



section \<open>Index keys\<close>

text \<open>
  The decimal rendering of indices is injective, so reading \<^verbatim>\<open>updateParams[k]\<close>
  at the key of the \<open>i\<close>-th round of the loop yields the \<open>i\<close>-th element.
\<close>

lemma digitChar_inj: "a < 10 \<Longrightarrow> b < 10 \<Longrightarrow> digitChar a = digitChar b \<Longrightarrow> a = b"
proof -
  assume a: "a < 10" and b: "b < 10" and e: "digitChar a = digitChar b"
  have A: "a \<in> {0,1,2,3,4,5,6,7,8,9}" using a by auto
  have B: "b \<in> {0,1,2,3,4,5,6,7,8,9}" using b by auto
  show ?thesis using A B e by (auto simp: digitChar_def)
qed

lemma showNat_nonempty: "showNat n \<noteq> []"
  by (subst showNat.simps) simp

lemma showNat_inj: "showNat a = showNat b \<Longrightarrow> a = b"
proof (induction a arbitrary: b rule: showNat.induct)
  case (1 n)
  show ?case
  proof (cases "n < 10")
    case True
    then have n: "showNat n = [digitChar n]" by (subst showNat.simps) simp
    show ?thesis
    proof (cases "b < 10")
      case bs: True
      then have "showNat b = [digitChar b]" by (subst showNat.simps) simp
      with n "1.prems" True bs show ?thesis by (auto dest: digitChar_inj)
    next
      case False
      then have "showNat b = showNat (b div 10) @ [digitChar (b mod 10)]" by (subst showNat.simps) simp
      with n "1.prems" showNat_nonempty[of "b div 10"] show ?thesis by (cases "showNat (b div 10)") auto
    qed
  next
    case False
    then have n: "showNat n = showNat (n div 10) @ [digitChar (n mod 10)]" by (subst showNat.simps) simp
    show ?thesis
    proof (cases "b < 10")
      case True
      then have "showNat b = [digitChar b]" by (subst showNat.simps) simp
      with n "1.prems" showNat_nonempty[of "n div 10"] show ?thesis by (cases "showNat (n div 10)") auto
    next
      case bf: False
      then have b: "showNat b = showNat (b div 10) @ [digitChar (b mod 10)]" by (subst showNat.simps) simp
      from n b "1.prems" have e1: "showNat (n div 10) = showNat (b div 10)" and e2: "digitChar (n mod 10) = digitChar (b mod 10)" by auto
      from "1.IH"[OF False e1] have d: "n div 10 = b div 10" .
      from e2 have m: "n mod 10 = b mod 10" by (auto dest!: digitChar_inj[rotated 2])
      from d m show ?thesis by (metis div_mult_mod_eq)
    qed
  qed
qed

lemma showNat_0: "showNat 0 = ''0''"
  by (subst showNat.simps) (simp add: digitChar_def)

lemma showNat_not_length: "showNat n \<noteq> ''length''"
proof
  assume e: "showNat n = ''length''"
  show False
  proof (cases "n < 10")
    case True
    then have "showNat n = [digitChar n]" by (subst showNat.simps) simp
    with e show False by simp
  next
    case False
    then have "showNat n = showNat (n div 10) @ [digitChar (n mod 10)]" by (subst showNat.simps) simp
    with e have "digitChar (n mod 10) = CHR ''h''" by (metis last_snoc last.simps list.discI)
    moreover have "digitChar (n mod 10) \<in> set ''0123456789''"
      unfolding digitChar_def by (rule nth_mem) simp
    ultimately show False by simp
  qed
qed

lemma find_eq_member: "x \<in> set xs \<Longrightarrow> find (\<lambda>j. j = x) xs = Some x"
  by (induction xs) auto

lemma indexOfKey_showNat: "i < n \<Longrightarrow> indexOfKey (showNat i) n = Some i"
proof -
  assume i: "i < n"
  have "find (\<lambda>j. showNat j = showNat i) [0..<n] = find (\<lambda>j. j = i) [0..<n]"
    by (rule find_cong) (auto dest: showNat_inj)
  also have "\<dots> = Some i" using i by (simp add: find_eq_member)
  finally show ?thesis by (simp add: indexOfKey_def)
qed

lemma getProp_index: "i < length xs \<Longrightarrow> getProp (JArr xs) (showNat i) = Some (xs ! i)"
  by (simp add: showNat_not_length indexOfKey_showNat)


section \<open>The update loop on an array of named fields\<close>

lemma getProp_defined: "getProp x k = Some a \<Longrightarrow> \<exists>b. getProp x k' = Some b"
  by (cases x) auto

lemma buildUpdate_step:
  assumes i: "i < length xs" and f: "hasFieldName (xs ! i)"
  shows "buildUpdate (JArr xs) (showNat i # ks) ue eav =
         buildUpdate (JArr xs) ks
           ((if i = 0 then ue else ue @ '','') @ '' '' @ clause (xs ! i))
           (assign eav (xs ! i))"
proof -
  from f obtain fn where fn: "getProp (xs ! i) ''fieldName'' = Some fn"
    "fn \<noteq> JUndefined" "fn \<noteq> JNull"
    by (auto simp: hasFieldName_def split: option.splits)
  from getProp_defined[OF fn(1)] obtain v where v: "getProp (xs ! i) ''fieldValue'' = Some v"
    by blast
  have z: "showNat i = ''0'' \<longleftrightarrow> i = 0"
    using showNat_inj[of i 0] showNat_0 by auto
  show ?thesis
    using fn v z getProp_index[OF i]
    by (simp add: clause_def assign_def placeholder_def fieldNameOf_def fieldValueOf_def
             del: getProp.simps)
qed

lemma buildUpdate_from:
  assumes "\<forall>x\<in>set xs. hasFieldName x" and "0 < i" and "i \<le> length xs"
  shows "buildUpdate (JArr xs) (map showNat [i..<length xs]) ue eav =
         Inr (ue @ concat (map (\<lambda>x. '', '' @ clause x) (drop i xs)), foldl assign eav (drop i xs))"
  using assms
proof (induction "length xs - i" arbitrary: i ue eav)
  case 0
  then show ?case by simp
next
  case (Suc k)
  then have i: "i < length xs" by simp
  have u: "[i..<length xs] = i # [Suc i..<length xs]" using i by (simp add: upt_conv_Cons)
  have d: "drop i xs = xs ! i # drop (Suc i) xs" using i by (simp add: Cons_nth_drop_Suc)
  have f: "hasFieldName (xs ! i)" using Suc.prems(1) i by simp
  have k: "k = length xs - Suc i" using Suc.hyps(2) by simp
  have ih: "buildUpdate (JArr xs) (map showNat [Suc i..<length xs]) ue' eav' =
         Inr (ue' @ concat (map (\<lambda>x. '', '' @ clause x) (drop (Suc i) xs)), foldl assign eav' (drop (Suc i) xs))"
    for ue' eav'
    using Suc.hyps(1)[OF k Suc.prems(1)] i by simp
  show ?case
    using Suc.prems(2) by (simp add: u d buildUpdate_step[OF i f] ih del: buildUpdate.simps)
qed

lemma joinWith_Cons: "joinWith sep (s # ss) = s @ concat (map (\<lambda>t. sep @ t) ss)"
  by (induction ss arbitrary: s) auto

lemma buildUpdateExpression_array:
  assumes "\<forall>x\<in>set xs. hasFieldName x" and "xs \<noteq> []"
  shows "buildUpdateExpression (JArr xs) = Inr (specUpdateExpression xs, foldl assign [] xs)"
proof -
  from assms(2) obtain y ys where xs: "xs = y # ys" by (cases xs) auto
  have l: "0 < length xs" using assms(2) by simp
  have f: "hasFieldName (xs ! 0)" using assms xs by simp
  have u: "[0..<length xs] = 0 # [Suc 0..<length xs]" using l by (simp add: upt_conv_Cons)
  have t: "buildUpdate (JArr xs) (map showNat [Suc 0..<length xs]) ue eav =
         Inr (ue @ concat (map (\<lambda>x. '', '' @ clause x) (drop (Suc 0) xs)), foldl assign eav (drop (Suc 0) xs))"
    for ue eav
    using buildUpdate_from[OF assms(1), of "Suc 0"] l by simp
  have "buildUpdateExpression (JArr xs) =
        Inr ((''set'' @ '' '' @ clause (xs ! 0)) @ concat (map (\<lambda>x. '', '' @ clause x) (drop (Suc 0) xs)),
             foldl assign (assign [] (xs ! 0)) (drop (Suc 0) xs))"
    unfolding buildUpdateExpression_def
    by (simp add: u buildUpdate_step[OF l f] t del: buildUpdate.simps)
  then show ?thesis
    by (simp add: xs specUpdateExpression_def joinWith_Cons comp_def)
qed

lemma map_of_setProp: "map_of (setProp k v ps) = (map_of ps)(k \<mapsto> v)"
  by (induction ps) auto

lemma keys_setProp: "fst ` set (setProp k v ps) = insert k (fst ` set ps)"
  by (induction ps) auto

lemma distinct_setProp: "distinct (map fst ps) \<Longrightarrow> distinct (map fst (setProp k v ps))"
proof (induction ps)
  case Nil
  show ?case by simp
next
  case (Cons p ps)
  show ?case
  proof (cases "fst p = k")
    case True
    with Cons.prems show ?thesis by simp
  next
    case False
    with Cons show ?thesis by (simp add: keys_setProp)
  qed
qed

lemma map_of_foldl_assign:
  "map_of (foldl assign eav xs) = map_of (rev (map (\<lambda>x. (placeholder x, fieldValueOf x)) xs) @ eav)"
  by (induction xs arbitrary: eav) (simp_all add: assign_def map_of_setProp)

lemma keys_foldl_assign:
  "set (map fst (foldl assign eav xs)) = set (map fst eav) \<union> set (map placeholder xs)"
  by (induction xs arbitrary: eav) (simp_all add: assign_def keys_setProp)

lemma distinct_foldl_assign:
  "distinct (map fst eav) \<Longrightarrow> distinct (map fst (foldl assign eav xs))"
  by (induction xs arbitrary: eav) (simp_all add: assign_def distinct_setProp)

section \<open>Operations that reach the store\<close>

text \<open>
  What the callbacks make of a pending promise, and what each operation amounts to once
  its validation lines have let the call through.
\<close>

lemma emptyRequest_sel [simp]:
  "TableName emptyRequest = None" "Item emptyRequest = None" "Key emptyRequest = None"
  "ConditionExpression emptyRequest = None" "ExpressionAttributeValues emptyRequest = None"
  "UpdateExpression emptyRequest = None" "KeyConditionExpression emptyRequest = None"
  "ExpressionAttributeNames emptyRequest = None" "IndexName emptyRequest = None"
  by (simp_all add: emptyRequest_def)



















lemma present_lengthLE0: "present v \<Longrightarrow> \<exists>b. lengthLE0 v = Some b"
  by (cases v) (simp_all add: present_def lengthLE0_def)

lemma emptyArg_lengthLE0: "emptyArg v \<Longrightarrow> lengthLE0 v = Some True"
  by (auto simp: emptyArg_def lengthLE0_def leZero_def)

lemma missingOrLengthLE0_total: "\<exists>b. missingOrLengthLE0 v = Some b"
  by (cases v) (auto simp: missingOrLengthLE0_def lengthLE0_def)

lemma missingOrLengthLE0_rejects:
  "\<not> truthy v \<or> emptyArg v \<Longrightarrow> missingOrLengthLE0 v = Some True"
  by (auto simp: missingOrLengthLE0_def emptyArg_lengthLE0)

lemma validate_Some:
  "validate (Some b) m eo rest =
     (if b then rejected \<lparr>msg = m, code = None, DBError = None, calledWith = Some eo\<rparr> else rest)"
  by (simp add: validate_def)

lemma rejectedUncoded_rejected:
  "rejectedUncoded (rejected \<lparr>msg = m, code = None, DBError = None, calledWith = Some eo\<rparr>)"
  by (simp add: rejectedUncoded_def rejected_def)

lemma putItem_empty:
  assumes "present item" and "present tableName" and "emptyArg item \<or> emptyArg tableName"
  shows "rejectedUncoded (putItem c item tableName overwrite)"
proof -
  obtain b1 b2 where
    b: "lengthLE0 item = Some b1" "lengthLE0 tableName = Some b2"
    using present_lengthLE0[OF assms(1)] present_lengthLE0[OF assms(2)] by blast
  from assms(3) b have "b1 \<or> b2" by (auto dest: emptyArg_lengthLE0)
  then show ?thesis
    by (auto simp: putItem_def Let_def b validate_Some rejectedUncoded_rejected)
qed

lemma updateItem_empty:
  assumes "\<not> truthy itemKey \<or> emptyArg itemKey
           \<or> \<not> truthy updateParams \<or> emptyArg updateParams
           \<or> \<not> truthy tableName \<or> emptyArg tableName"
  shows "rejectedUncoded (updateItem c itemKey tableName updateParams conditionExpression)"
proof -
  obtain b1 b2 b3 where
    b: "missingOrLengthLE0 itemKey = Some b1" "missingOrLengthLE0 updateParams = Some b2"
       "missingOrLengthLE0 tableName = Some b3"
    using missingOrLengthLE0_total[of itemKey] missingOrLengthLE0_total[of updateParams]
      missingOrLengthLE0_total[of tableName] by blast
  have "b1" if "\<not> truthy itemKey \<or> emptyArg itemKey"
    using missingOrLengthLE0_rejects[OF that] b(1) by simp
  moreover have "b2" if "\<not> truthy updateParams \<or> emptyArg updateParams"
    using missingOrLengthLE0_rejects[OF that] b(2) by simp
  moreover have "b3" if "\<not> truthy tableName \<or> emptyArg tableName"
    using missingOrLengthLE0_rejects[OF that] b(3) by simp
  ultimately have "b1 \<or> b2 \<or> b3" using assms by blast
  then show ?thesis
    by (auto simp: updateItem_def Let_def b validate_Some rejectedUncoded_rejected)
qed

lemma deleteItem_empty:
  assumes "present itemKey" and "present tableName"
    and "present deleteCondition" and "present deleteParameters"
    and "emptyArg itemKey \<or> emptyArg tableName \<or> emptyArg deleteCondition \<or> emptyArg deleteParameters"
  shows "rejectedUncoded (deleteItem c itemKey tableName deleteCondition deleteParameters)"
proof -
  obtain b1 b2 b3 b4 where
    b: "lengthLE0 itemKey = Some b1" "lengthLE0 tableName = Some b2"
       "lengthLE0 deleteCondition = Some b3" "lengthLE0 deleteParameters = Some b4"
    using present_lengthLE0[OF assms(1)] present_lengthLE0[OF assms(2)]
      present_lengthLE0[OF assms(3)] present_lengthLE0[OF assms(4)] by blast
  from assms(5) b have "b1 \<or> b2 \<or> b3 \<or> b4" by (auto dest: emptyArg_lengthLE0)
  then show ?thesis
    by (auto simp: deleteItem_def Let_def b validate_Some rejectedUncoded_rejected)
qed

lemma getItem_empty:
  assumes "present itemKey" and "present tableName" and "emptyArg itemKey \<or> emptyArg tableName"
  shows "rejectedUncoded (getItem c itemKey tableName)"
proof -
  obtain b1 b2 where
    b: "lengthLE0 itemKey = Some b1" "lengthLE0 tableName = Some b2"
    using present_lengthLE0[OF assms(1)] present_lengthLE0[OF assms(2)] by blast
  from assms(3) b have "b1 \<or> b2" by (auto dest: emptyArg_lengthLE0)
  then show ?thesis
    by (auto simp: getItem_def Let_def b validate_Some rejectedUncoded_rejected)
qed

lemma query_empty:
  assumes "present conditionExpression" and "present tableName"
    and "present expressionAttributeNames" and "present expressionAttributeValues"
    and "emptyArg conditionExpression \<or> emptyArg tableName
         \<or> emptyArg expressionAttributeNames \<or> emptyArg expressionAttributeValues"
  shows "rejectedUncoded (query c conditionExpression expressionAttributeNames
           expressionAttributeValues tableName indexName)"
proof -
  obtain b1 b2 b3 b4 where
    b: "lengthLE0 conditionExpression = Some b1" "lengthLE0 tableName = Some b2"
       "lengthLE0 expressionAttributeNames = Some b3" "lengthLE0 expressionAttributeValues = Some b4"
    using present_lengthLE0[OF assms(1)] present_lengthLE0[OF assms(2)]
      present_lengthLE0[OF assms(3)] present_lengthLE0[OF assms(4)] by blast
  from assms(5) b have "b1 \<or> b2 \<or> b3 \<or> b4" by (auto dest: emptyArg_lengthLE0)
  then show ?thesis
    by (auto simp: query_def Let_def b validate_Some rejectedUncoded_rejected)
qed

section \<open>The claims\<close>

text \<open>
  C1. For every non-empty array of update fields in which every element has a defined,
  non-null \<^verbatim>\<open>fieldName\<close>, the loop of \<^verbatim>\<open>updateItem\<close> ends normally with the
  expression \<^verbatim>\<open>set n1 = :n1, n2 = :n2, ...\<close>: one clause per field, in input order,
  separated by a comma and a blank, nothing after the last clause. The attribute values
  have one entry per distinct field name, under the key \<^verbatim>\<open>:<fieldName>\<close>, and a
  key looks up the value of the last field of that name.
\<close>

theorem buildUpdateExpression_fields:
  assumes "xs \<noteq> []" and "\<forall>x\<in>set xs. hasFieldName x"
  shows "\<exists>eav. buildUpdateExpression (JArr xs) = Inr (specUpdateExpression xs, eav)
           \<and> distinct (map fst eav)
           \<and> set (map fst eav) = set (map placeholder xs)
           \<and> length eav = card (set (map placeholder xs))
           \<and> map_of eav = map_of (rev (map (\<lambda>x. (placeholder x, fieldValueOf x)) xs))"
proof -
  let ?eav = "foldl assign [] xs"
  have b: "buildUpdateExpression (JArr xs) = Inr (specUpdateExpression xs, ?eav)"
    by (rule buildUpdateExpression_array[OF assms(2,1)])
  have d: "distinct (map fst ?eav)"
    by (rule distinct_foldl_assign) simp
  have k: "set (map fst ?eav) = set (map placeholder xs)"
    using keys_foldl_assign[of "[]" xs] by simp
  have l: "length ?eav = card (set (map placeholder xs))"
    using distinct_card[OF d] k by simp
  have m: "map_of ?eav = map_of (rev (map (\<lambda>x. (placeholder x, fieldValueOf x)) xs))"
    using map_of_foldl_assign[of "[]" xs] by simp
  from b d k l m show ?thesis by blast
qed

theorem buildUpdateExpression_fields_witness:
  "\<exists>eav. buildUpdateExpression
           (JArr [JObj [(''fieldName'', JStr ''MachinePPM''), (''fieldValue'', JNum 71)],
                  JObj [(''fieldName'', JStr ''Owner''), (''fieldValue'', JStr ''R'')],
                  JObj [(''fieldName'', JStr ''MachinePPM''), (''fieldValue'', JNum 72)]])
         = Inr (''set MachinePPM = :MachinePPM, Owner = :Owner, MachinePPM = :MachinePPM'', eav)
       \<and> length eav = 2
       \<and> set (map fst eav) = {'':MachinePPM'', '':Owner''}
       \<and> map_of eav '':MachinePPM'' = Some (JNum 72)"
proof -
  let ?xs = "[JObj [(''fieldName'', JStr ''MachinePPM''), (''fieldValue'', JNum 71)],
              JObj [(''fieldName'', JStr ''Owner''), (''fieldValue'', JStr ''R'')],
              JObj [(''fieldName'', JStr ''MachinePPM''), (''fieldValue'', JNum 72)]]"
  have h1: "?xs \<noteq> []" by simp
  have h2: "\<forall>x\<in>set ?xs. hasFieldName x" by (simp add: hasFieldName_def)
  from buildUpdateExpression_fields[OF h1 h2] obtain eav where
    e: "buildUpdateExpression (JArr ?xs) = Inr (specUpdateExpression ?xs, eav)"
       "length eav = card (set (map placeholder ?xs))"
       "set (map fst eav) = set (map placeholder ?xs)"
       "map_of eav = map_of (rev (map (\<lambda>x. (placeholder x, fieldValueOf x)) ?xs))"
    by blast
  have s: "specUpdateExpression ?xs =
             ''set MachinePPM = :MachinePPM, Owner = :Owner, MachinePPM = :MachinePPM''"
    by (simp add: specUpdateExpression_def clause_def fieldNameOf_def)
  have k: "set (map placeholder ?xs) = {'':MachinePPM'', '':Owner''}"
    by (auto simp: placeholder_def fieldNameOf_def)
  have c: "card {'':MachinePPM'', '':Owner''} = 2" by simp
  have m: "map_of (rev (map (\<lambda>x. (placeholder x, fieldValueOf x)) ?xs)) '':MachinePPM''
             = Some (JNum 72)"
    by (simp add: placeholder_def fieldNameOf_def fieldValueOf_def)
  show ?thesis using e s k c m by auto
qed






text \<open>
  C4, as stated, asks that an empty or missing mandatory argument makes the call fail
  with an error of kind \<^verbatim>\<open>InvalidData\<close> before any store call. On
  \<^verbatim>\<open>getItem\<close>: the empty string as key is rejected before any store call, by an
  error object without a \<^verbatim>\<open>code\<close>; the empty object as key is not rejected and
  the store is called; a missing key makes \<^verbatim>\<open>itemKey.length\<close> throw.
\<close>

theorem empty_argument_counterexample:
  "getItem acceptingStore (JStr []) (JStr ''T'')
     = \<lparr>outcome = Rejected (OperationError
          \<lparr>msg = ''no Item Key supplied'', code = None, DBError = None,
           calledWith = Some [(''itemKey'', JStr []), (''tableName'', JStr ''T'')]\<rparr>),
        calls = []\<rparr>
   \<and> \<not> failsInvalidData (getItem acceptingStore (JStr []) (JStr ''T''))
   \<and> getItem acceptingStore (JObj []) (JStr ''T'')
     = \<lparr>outcome = Resolved (JObj []),
        calls = [(ClientGet, emptyRequest\<lparr>Key := Some (JObj []), TableName := Some (JStr ''T'')\<rparr>)]\<rparr>
   \<and> \<not> failsInvalidData (getItem acceptingStore (JObj []) (JStr ''T''))
   \<and> getItem acceptingStore JUndefined (JStr ''T'') = \<lparr>outcome = Rejected TypeError, calls = []\<rparr>
   \<and> \<not> failsInvalidData (getItem acceptingStore JUndefined (JStr ''T''))"
  by (simp add: getItem_def validate_def lengthLE0_def leZero_def rejected_def thrown_def
        failsInvalidData_def acceptingStore_def plainCallback_def)

text \<open>
  C4, amended. A call of \<^verbatim>\<open>putItem\<close>, \<^verbatim>\<open>deleteItem\<close>, \<^verbatim>\<open>getItem\<close>
  or \<^verbatim>\<open>query\<close> whose mandatory arguments are all present and one of which is the
  empty string or the empty array, and a call of \<^verbatim>\<open>updateItem\<close> one of whose
  mandatory arguments is falsy (missing, for one) or the empty array, makes no store call
  and is rejected with an error object that has a message and the call's arguments, and
  no code.
\<close>

theorem empty_argument_rejected_without_code:
  "(present item \<and> present tableName \<and> (emptyArg item \<or> emptyArg tableName) \<longrightarrow>
      rejectedUncoded (putItem c item tableName overwrite))
   \<and> (\<not> truthy itemKey \<or> emptyArg itemKey \<or> \<not> truthy updateParams \<or> emptyArg updateParams
        \<or> \<not> truthy tableName \<or> emptyArg tableName \<longrightarrow>
      rejectedUncoded (updateItem c itemKey tableName updateParams conditionExpression))
   \<and> (present itemKey \<and> present tableName \<and> present deleteCondition \<and> present deleteParameters
        \<and> (emptyArg itemKey \<or> emptyArg tableName \<or> emptyArg deleteCondition
             \<or> emptyArg deleteParameters) \<longrightarrow>
      rejectedUncoded (deleteItem c itemKey tableName deleteCondition deleteParameters))
   \<and> (present itemKey \<and> present tableName \<and> (emptyArg itemKey \<or> emptyArg tableName) \<longrightarrow>
      rejectedUncoded (getItem c itemKey tableName))
   \<and> (present conditionExpression \<and> present tableName \<and> present expressionAttributeNames
        \<and> present expressionAttributeValues
        \<and> (emptyArg conditionExpression \<or> emptyArg tableName \<or> emptyArg expressionAttributeNames
             \<or> emptyArg expressionAttributeValues) \<longrightarrow>
      rejectedUncoded (query c conditionExpression expressionAttributeNames
        expressionAttributeValues tableName indexName))"
  using putItem_empty[of item tableName c overwrite]
    updateItem_empty[of itemKey updateParams tableName c conditionExpression]
    deleteItem_empty[of itemKey tableName deleteCondition deleteParameters c]
    getItem_empty[of itemKey tableName c]
    query_empty[of conditionExpression tableName expressionAttributeNames
      expressionAttributeValues c indexName]
  by blast

theorem empty_argument_rejected_without_code_witness:
  "rejectedUncoded (putItem acceptingStore (JObj [(''id'', JStr ''4666fsffr'')]) (JStr []) JUndefined)
   \<and> rejectedUncoded (updateItem acceptingStore JUndefined (JStr ''T'') (JArr []) JUndefined)
   \<and> rejectedUncoded (deleteItem acceptingStore (JObj [(''id'', JStr ''4666fsffr'')]) (JStr ''T'')
         (JStr []) (JObj []))
   \<and> rejectedUncoded (getItem acceptingStore (JStr []) (JStr ''T''))
   \<and> rejectedUncoded (query acceptingStore (JStr ''#k = :k'') (JObj [(''#k'', JStr ''id'')])
         (JObj [('':k'', JStr ''4666fsffr'')]) (JStr []) JUndefined)"
  using empty_argument_rejected_without_code[of
      "JObj [(''id'', JStr ''4666fsffr'')]" "JStr []" acceptingStore JUndefined]
    empty_argument_rejected_without_code[of _ "JStr ''T''" _ _ JUndefined "JArr []"]
    empty_argument_rejected_without_code[of _ "JStr ''T''" _ _
      "JObj [(''id'', JStr ''4666fsffr'')]" _ _ "JStr []" "JObj []"]
    empty_argument_rejected_without_code[of _ "JStr ''T''" _ _ "JStr []"]
    empty_argument_rejected_without_code[of _ "JStr []" _ _ _ _ _ _ _
      "JStr ''#k = :k''" "JObj [(''#k'', JStr ''id'')]" "JObj [('':k'', JStr ''4666fsffr'')]"]
  by (simp add: present_def emptyArg_def)






text \<open>
  C7. \<^verbatim>\<open>setAWSRegion\<close> tests \<^verbatim>\<open>regionName.length >= 0\<close>, which holds of
  every string: called with the empty string it sets the region to the empty string and
  writes nothing to the console. The branch that leaves the region alone and prints the
  message is not taken for any string.
\<close>

theorem setAWSRegion_empty_string:
  "setAWSRegion (JStr []) initialState = Some \<lparr>region = JStr [], console = []\<rparr>
   \<and> setAWSRegion (JStr s) st = Some (st\<lparr>region := JStr s\<rparr>)"
  by (simp add: setAWSRegion_def lengthGE0_def geZero_def initialState_def)

text \<open>
  C8, as stated, asks that \<^verbatim>\<open>scan\<close> rejects with an error classified
  \<^verbatim>\<open>NotImplemented\<close> that carries the call context. The object it rejects with has
  a message only.
\<close>

theorem scan_counterexample:
  "scan acceptingStore
     = \<lparr>outcome = Rejected (OperationError
          \<lparr>msg = ''Not implemented'', code = None, DBError = None, calledWith = None\<rparr>),
        calls = []\<rparr>
   \<and> \<not> classifiedWithContext ''NotImplemented'' (scan acceptingStore)"
  by (simp add: scan_def classifiedWithContext_def)

text \<open>
  C8, amended. \<^verbatim>\<open>scan\<close> makes no store call and rejects with an object whose only
  property is the message \<^verbatim>\<open>Not implemented\<close>: no code, no call context.
\<close>

theorem scan_not_implemented:
  "calls (scan c) = []
   \<and> outcome (scan c) = Rejected (OperationError
        \<lparr>msg = ''Not implemented'', code = None, DBError = None, calledWith = None\<rparr>)"
  by (simp add: scan_def)






end
